theory Spec2Isabelle
  imports Main
begin

section \<open>The leveled logger of \<^verbatim>\<open>github.com/outbrain/log\<close> (log.go)\<close>

text \<open>
  The package keeps one global threshold, formats an entry as
  \<^verbatim>\<open><timestamp> <LEVEL> <message>\<close>, writes it to standard error when the entry's level
  passes the threshold, and terminates the process in the FATAL family. The embedding
  makes the two effects explicit: the package state and the bytes written to standard
  error form a record that every operation takes and returns, and a call that ends in
  \<^verbatim>\<open>os.Exit\<close> yields an outcome that says so.
\<close>

subsection \<open>Values of the Go program\<close>

text \<open>
  \<^verbatim>\<open>type LogLevel int\<close>: the level is a Go \<^verbatim>\<open>int\<close>. The program only compares levels and
  switches on them, it never does arithmetic, so the embedding uses \<^typ>\<open>int\<close>.
\<close>

type_synonym LogLevel = int

definition FATAL :: LogLevel where "FATAL = 0"
definition CRITICAL :: LogLevel where "CRITICAL = 1"
definition ERROR :: LogLevel where "ERROR = 2"
definition WARNING :: LogLevel where "WARNING = 3"
definition NOTICE :: LogLevel where "NOTICE = 4"
definition INFO :: LogLevel where "INFO = 5"
definition DEBUG :: LogLevel where "DEBUG = 6"

text \<open>\<^verbatim>\<open>func (this LogLevel) String() string\<close>: the switch, case by case, then the default.\<close>

definition LogLevel_String :: "LogLevel \<Rightarrow> string" where
  "LogLevel_String this =
     (if this = FATAL then ''FATAL''
      else if this = CRITICAL then ''CRITICAL''
      else if this = ERROR then ''ERROR''
      else if this = WARNING then ''WARNING''
      else if this = NOTICE then ''NOTICE''
      else if this = INFO then ''INFO''
      else if this = DEBUG then ''DEBUG''
      else ''unknown'')"

text \<open>
  A non-nil \<^verbatim>\<open>error\<close> value, represented by the text its \<^verbatim>\<open>Error\<close> method returns.
  An \<^verbatim>\<open>error\<close> variable is a \<open>goerror option\<close>, \<open>None\<close> being \<^verbatim>\<open>nil\<close>;
  \<^verbatim>\<open>errors.New\<close> never returns \<^verbatim>\<open>nil\<close>.
\<close>

datatype goerror = errorString (Error_text: string)

definition errors_New :: "string \<Rightarrow> goerror option" where
  "errors_New text = Some (errorString text)"

text \<open>
  The operands handed to the variadic \<^verbatim>\<open>args ...interface{}\<close>: strings, ints, log levels
  (which carry the \<^verbatim>\<open>String\<close> method above) and error values.
\<close>

datatype gvalue = VString string | VInt int | VLogLevel LogLevel | VError goerror

subsection \<open>The package state and the process\<close>

text \<open>
  \<^verbatim>\<open>var globalLogLevel LogLevel = DEBUG\<close> and the bytes written so far to
  \<^verbatim>\<open>os.Stderr\<close>.
\<close>

record world =
  globalLogLevel :: LogLevel
  stderr :: string

definition initial_world :: world where
  "initial_world = \<lparr>globalLogLevel = DEBUG, stderr = []\<rparr>"

text \<open>A call either returns its value or ends the process with an exit status.\<close>

datatype 'a outcome = Returns 'a | Exits int

definition SetLevel :: "LogLevel \<Rightarrow> world \<Rightarrow> world" where
  "SetLevel logLevel w = w\<lparr>globalLogLevel := logLevel\<rparr>"

definition GetLevel :: "world \<Rightarrow> LogLevel" where
  "GetLevel w = globalLogLevel w"

subsection \<open>The fragment of package \<^verbatim>\<open>fmt\<close> that the logger relies on\<close>

text \<open>
  \<^verbatim>\<open>fmt.Sprintf\<close> belongs to the Go standard library, not to this package. The logger
  definitions below take it as the parameter \<open>Sprintf\<close>. What is known about it is
  written down as the partial function \<open>fmt_Sprintf\<close>, which follows the documentation of
  package \<^verbatim>\<open>fmt\<close> on the directives it covers and is \<open>None\<close> everywhere else:
  \<^item> bytes other than \<^verbatim>\<open>%\<close> are copied;
  \<^item> \<^verbatim>\<open>%%\<close> prints one \<^verbatim>\<open>%\<close> and takes no operand;
  \<^item> a \<^verbatim>\<open>%\<close> that ends the format prints \<^verbatim>\<open>%!(NOVERB)\<close>;
  \<^item> a verb with no operand left prints \<^verbatim>\<open>%!verb(MISSING)\<close>;
  \<^item> \<^verbatim>\<open>%s\<close>, \<^verbatim>\<open>%v\<close>, \<^verbatim>\<open>%d\<close> and \<^verbatim>\<open>%+v\<close> print their operand as \<open>printArg\<close> says,
    a wrong verb for the operand's type giving \<^verbatim>\<open>%!verb(type=value)\<close>.
  Flags other than the \<^verbatim>\<open>+\<close> of \<^verbatim>\<open>%+v\<close>, widths, precisions, argument indexes, verbs
  that are not ASCII, and operands left over at the end of the format are outside the
  fragment.
\<close>

fun digits :: "nat \<Rightarrow> string" where
  "digits n =
     (if n < 10 then [''0123456789'' ! n]
      else digits (n div 10) @ [''0123456789'' ! (n mod 10)])"

definition strconv_Itoa :: "int \<Rightarrow> string" where
  "strconv_Itoa i = (if i < 0 then CHR ''-'' # digits (nat (- i)) else digits (nat i))"

text \<open>
  One operand under one verb; \<open>plusV\<close> is the \<^verbatim>\<open>+\<close> flag. A value with a \<^verbatim>\<open>String\<close> or
  \<^verbatim>\<open>Error\<close> method is printed through that method under \<^verbatim>\<open>%s\<close> and \<^verbatim>\<open>%v\<close>.
\<close>

definition printArg :: "bool \<Rightarrow> char \<Rightarrow> gvalue \<Rightarrow> string option" where
  "printArg plusV verb arg =
     (if plusV \<and> verb \<noteq> CHR ''v'' then None
      else case arg of
        VString s \<Rightarrow>
          (if verb = CHR ''s'' \<or> verb = CHR ''v'' then Some s
           else if verb = CHR ''d'' then Some (''%!d(string='' @ s @ '')'')
           else None)
      | VInt i \<Rightarrow>
          (if verb = CHR ''d'' \<or> verb = CHR ''v'' then Some (strconv_Itoa i)
           else if verb = CHR ''s'' then Some (''%!s(int='' @ strconv_Itoa i @ '')'')
           else None)
      | VLogLevel l \<Rightarrow>
          (if verb = CHR ''s'' \<or> verb = CHR ''v'' then Some (LogLevel_String l)
           else if verb = CHR ''d'' then Some (strconv_Itoa l)
           else None)
      | VError e \<Rightarrow>
          (if verb = CHR ''s'' \<or> verb = CHR ''v'' then Some (Error_text e)
           else None))"

text \<open>
  Right after \<^verbatim>\<open>%\<close>, the characters listed here start a flag, a width, a precision or an
  argument index; every other ASCII character is taken as the verb.
\<close>

definition verb_char :: "char \<Rightarrow> bool" where
  "verb_char c = (c \<notin> set ''#0+- 123456789.[*'' \<and> of_char c < (128 :: nat))"

text \<open>The operand step of one directive: the text printed and the operands left.\<close>

fun operand :: "bool \<Rightarrow> char \<Rightarrow> gvalue list \<Rightarrow> (string \<times> gvalue list) option" where
  "operand plusV verb [] = Some (''%!'' @ [verb] @ ''(MISSING)'', [])"
| "operand plusV verb (arg # a) = map_option (\<lambda>s. (s, a)) (printArg plusV verb arg)"

fun fmt_Sprintf :: "string \<Rightarrow> gvalue list \<Rightarrow> string option" where
  "fmt_Sprintf [] a = (if a = [] then Some [] else None)"
| "fmt_Sprintf (c # format) a =
     (if c \<noteq> CHR ''%'' then map_option ((#) c) (fmt_Sprintf format a)
      else case format of
        [] \<Rightarrow> (if a = [] then Some ''%!(NOVERB)'' else None)
      | verb # rest \<Rightarrow>
          if verb = CHR ''%'' then map_option ((#) CHR ''%'') (fmt_Sprintf rest a)
          else if verb = CHR ''+'' then
            (case rest of
               [] \<Rightarrow> None
             | verb' # rest' \<Rightarrow>
                 if verb' = CHR ''v'' then
                   (case operand True verb' a of
                      None \<Rightarrow> None
                    | Some (s, a') \<Rightarrow> map_option ((@) s) (fmt_Sprintf rest' a'))
                 else None)
          else if verb_char verb then
            (case operand False verb a of
               None \<Rightarrow> None
             | Some (s, a') \<Rightarrow> map_option ((@) s) (fmt_Sprintf rest a'))
          else None)"

text \<open>
  A formatter agrees with package \<^verbatim>\<open>fmt\<close> when it returns what the fragment says
  wherever the fragment says something.
\<close>

definition fmt_agrees :: "(string \<Rightarrow> gvalue list \<Rightarrow> string) \<Rightarrow> bool" where
  "fmt_agrees Sprintf = (\<forall>format a s. fmt_Sprintf format a = Some s \<longrightarrow> Sprintf format a = s)"

text \<open>
  The formatter used to run the logger on concrete inputs. The inputs evaluated below
  stay inside the fragment.
\<close>

definition Sprintf_fragment :: "string \<Rightarrow> gvalue list \<Rightarrow> string" where
  "Sprintf_fragment format a = (case fmt_Sprintf format a of Some s \<Rightarrow> s | None \<Rightarrow> [])"

subsection \<open>The logger\<close>

text \<open>
  \<open>now\<close> is the text of \<^verbatim>\<open>time.Now().Format(timeFormat)\<close> at the call.
  \<^verbatim>\<open>fmt.Fprintln(os.Stderr, entryString)\<close> appends the entry and a newline to standard
  error; its result is discarded by the source.
\<close>

definition logFormattedEntry ::
  "(string \<Rightarrow> gvalue list \<Rightarrow> string) \<Rightarrow> string \<Rightarrow> LogLevel \<Rightarrow> string \<Rightarrow> gvalue list
     \<Rightarrow> world \<Rightarrow> string \<times> world" where
  "logFormattedEntry Sprintf now logLevel message args w =
     (if logLevel > globalLogLevel w then ('''', w)
      else
        let entryString =
              Sprintf ''%s %s %s'' [VString now, VLogLevel logLevel, VString (Sprintf message args)]
        in (entryString, w\<lparr>stderr := stderr w @ entryString @ [CHR 0x0A]\<rparr>))"

text \<open>The loop of \<^verbatim>\<open>logEntry\<close>: \<^verbatim>\<open>entryString += fmt.Sprintf(" %s", s)\<close> for each argument.\<close>

fun append_args :: "(string \<Rightarrow> gvalue list \<Rightarrow> string) \<Rightarrow> string \<Rightarrow> gvalue list \<Rightarrow> string" where
  "append_args Sprintf entryString [] = entryString"
| "append_args Sprintf entryString (s # args) =
     append_args Sprintf (entryString @ Sprintf '' %s'' [s]) args"

definition logEntry ::
  "(string \<Rightarrow> gvalue list \<Rightarrow> string) \<Rightarrow> string \<Rightarrow> LogLevel \<Rightarrow> string \<Rightarrow> gvalue list
     \<Rightarrow> world \<Rightarrow> string \<times> world" where
  "logEntry Sprintf now logLevel message args w =
     logFormattedEntry Sprintf now logLevel (append_args Sprintf message args) [] w"

definition logErrorEntry ::
  "(string \<Rightarrow> gvalue list \<Rightarrow> string) \<Rightarrow> string \<Rightarrow> LogLevel \<Rightarrow> goerror option
     \<Rightarrow> world \<Rightarrow> goerror option \<times> world" where
  "logErrorEntry Sprintf now logLevel err w =
     (case err of
        None \<Rightarrow> (None, w)
      | Some e \<Rightarrow>
          let entryString = Sprintf ''%+v'' [VError e]
          in (Some e, snd (logEntry Sprintf now logLevel entryString [] w)))"

definition Debug where
  "Debug Sprintf now message args w = logEntry Sprintf now DEBUG message args w"

definition Debugf where
  "Debugf Sprintf now message args w = logFormattedEntry Sprintf now DEBUG message args w"

definition Info where
  "Info Sprintf now message args w = logEntry Sprintf now INFO message args w"

definition Infof where
  "Infof Sprintf now message args w = logFormattedEntry Sprintf now INFO message args w"

definition Notice where
  "Notice Sprintf now message args w = logEntry Sprintf now NOTICE message args w"

definition Noticef where
  "Noticef Sprintf now message args w = logFormattedEntry Sprintf now NOTICE message args w"

text \<open>The levels that wrap the returned string with \<^verbatim>\<open>errors.New\<close>.\<close>

definition wrap :: "string \<times> world \<Rightarrow> goerror option \<times> world" where
  "wrap r = (errors_New (fst r), snd r)"

definition Warning where
  "Warning Sprintf now message args w = wrap (logEntry Sprintf now WARNING message args w)"

definition Warningf where
  "Warningf Sprintf now message args w = wrap (logFormattedEntry Sprintf now WARNING message args w)"

definition Error where
  "Error Sprintf now message args w = wrap (logEntry Sprintf now ERROR message args w)"

definition Errorf where
  "Errorf Sprintf now message args w = wrap (logFormattedEntry Sprintf now ERROR message args w)"

definition Errore where
  "Errore Sprintf now err w = logErrorEntry Sprintf now ERROR err w"

definition Critical where
  "Critical Sprintf now message args w = wrap (logEntry Sprintf now CRITICAL message args w)"

definition Criticalf where
  "Criticalf Sprintf now message args w = wrap (logFormattedEntry Sprintf now CRITICAL message args w)"

definition Criticale where
  "Criticale Sprintf now err w = logErrorEntry Sprintf now CRITICAL err w"

text \<open>
  The FATAL family: the entry, then \<^verbatim>\<open>os.Exit(1)\<close>. The \<^verbatim>\<open>return\<close> statement that follows
  \<^verbatim>\<open>os.Exit\<close> in the source is never reached. \<^verbatim>\<open>Fatalf\<close> calls \<^verbatim>\<open>logEntry\<close>, as the source
  does.
\<close>

definition Fatal ::
  "(string \<Rightarrow> gvalue list \<Rightarrow> string) \<Rightarrow> string \<Rightarrow> string \<Rightarrow> gvalue list
     \<Rightarrow> world \<Rightarrow> goerror option outcome \<times> world" where
  "Fatal Sprintf now message args w =
     (Exits 1, snd (logEntry Sprintf now FATAL message args w))"

definition Fatalf ::
  "(string \<Rightarrow> gvalue list \<Rightarrow> string) \<Rightarrow> string \<Rightarrow> string \<Rightarrow> gvalue list
     \<Rightarrow> world \<Rightarrow> goerror option outcome \<times> world" where
  "Fatalf Sprintf now message args w =
     (Exits 1, snd (logEntry Sprintf now FATAL message args w))"

definition Fatale ::
  "(string \<Rightarrow> gvalue list \<Rightarrow> string) \<Rightarrow> string \<Rightarrow> goerror option
     \<Rightarrow> world \<Rightarrow> goerror option outcome \<times> world" where
  "Fatale Sprintf now err w =
     (Exits 1, snd (logErrorEntry Sprintf now FATAL err w))"

text \<open>
  The line \<^verbatim>\<open><timestamp> <LEVEL-LABEL> <message>\<close> that the statements below compare the
  output with.
\<close>

definition rendered_line :: "string \<Rightarrow> LogLevel \<Rightarrow> string \<Rightarrow> string" where
  "rendered_line now logLevel msg = now @ '' '' @ LogLevel_String logLevel @ '' '' @ msg"

text \<open>\<open>contains_text s sub\<close>: the text \<open>sub\<close> occurs in \<open>s\<close> as a contiguous part.\<close>

fun contains_text :: "string \<Rightarrow> string \<Rightarrow> bool" where
  "contains_text [] sub = (sub = [])"
| "contains_text (c # cs) sub = (take (length sub) (c # cs) = sub \<or> contains_text cs sub)"

section \<open>Properties\<close>

subsection \<open>The formatter\<close>

lemmas level_defs = FATAL_def CRITICAL_def ERROR_def WARNING_def NOTICE_def INFO_def DEBUG_def

declare digits.simps [simp del]

lemma fmt_Sprintf_no_percent: "CHR ''%'' \<notin> set m \<Longrightarrow> fmt_Sprintf m [] = Some m"
  by (induction m) auto

lemma fmt_Sprintf_entry:
  "fmt_Sprintf ''%s %s %s'' [VString a, VLogLevel l, VString m] = Some (rendered_line a l m)"
  by (simp add: printArg_def verb_char_def rendered_line_def)

lemma fmt_Sprintf_plus_v: "fmt_Sprintf ''%+v'' [VError e] = Some (Error_text e)"
  by (simp add: printArg_def)

lemma fmt_Sprintf_space_s: "fmt_Sprintf '' %s'' [VString s] = Some ('' '' @ s)"
  by (simp add: printArg_def verb_char_def)

lemma Sprintf_fragment_agrees: "fmt_agrees Sprintf_fragment"
  by (simp add: fmt_agrees_def Sprintf_fragment_def)

lemma agrees_entry:
  "fmt_agrees Sprintf \<Longrightarrow>
   Sprintf ''%s %s %s'' [VString a, VLogLevel l, VString m] = rendered_line a l m"
  using fmt_Sprintf_entry by (simp add: fmt_agrees_def)

lemma agrees_no_percent:
  "fmt_agrees Sprintf \<Longrightarrow> CHR ''%'' \<notin> set m \<Longrightarrow> Sprintf m [] = m"
  using fmt_Sprintf_no_percent by (simp add: fmt_agrees_def)

lemma agrees_plus_v: "fmt_agrees Sprintf \<Longrightarrow> Sprintf ''%+v'' [VError e] = Error_text e"
  using fmt_Sprintf_plus_v by (simp add: fmt_agrees_def)

lemma agrees_space_s: "fmt_agrees Sprintf \<Longrightarrow> Sprintf '' %s'' [VString s] = '' '' @ s"
  using fmt_Sprintf_space_s by (simp add: fmt_agrees_def)

lemma fmt_Sprintf_missing_d: "fmt_Sprintf ''%d'' [] = Some ''%!d(MISSING)''"
  by (simp add: verb_char_def)

lemma agrees_missing_d: "fmt_agrees Sprintf \<Longrightarrow> Sprintf ''%d'' [] = ''%!d(MISSING)''"
  using fmt_Sprintf_missing_d by (simp add: fmt_agrees_def)

lemma contains_text_iff: "contains_text s sub = (\<exists>p q. s = p @ sub @ q)"
proof (induction s)
  case Nil
  then show ?case by auto
next
  case (Cons c cs)
  have "(take (length sub) (c # cs) = sub) = (\<exists>q. c # cs = sub @ q)"
    by (metis append_eq_conv_conj append_take_drop_id)
  moreover have "(\<exists>p q. c # cs = p @ sub @ q) =
      ((\<exists>q. c # cs = sub @ q) \<or> (\<exists>p q. cs = p @ sub @ q))"
  proof
    assume "\<exists>p q. c # cs = p @ sub @ q"
    then obtain p q where pq: "c # cs = p @ sub @ q" by blast
    show "(\<exists>q. c # cs = sub @ q) \<or> (\<exists>p q. cs = p @ sub @ q)"
    proof (cases p)
      case Nil
      with pq show ?thesis by auto
    next
      case (Cons a p')
      with pq have "cs = p' @ sub @ q" by simp
      then show ?thesis by blast
    qed
  next
    assume "(\<exists>q. c # cs = sub @ q) \<or> (\<exists>p q. cs = p @ sub @ q)"
    then show "\<exists>p q. c # cs = p @ sub @ q"
    proof
      assume "\<exists>q. c # cs = sub @ q"
      then show ?thesis by (metis append_Nil)
    next
      assume "\<exists>p q. cs = p @ sub @ q"
      then obtain p q where "cs = p @ sub @ q" by blast
      then have "c # cs = (c # p) @ sub @ q" by simp
      then show ?thesis by blast
    qed
  qed
  ultimately show ?case using Cons.IH by simp
qed

subsection \<open>The emission path\<close>

lemma logFormattedEntry_suppressed:
  "globalLogLevel w < logLevel \<Longrightarrow>
   logFormattedEntry Sprintf now logLevel message args w = ('''', w)"
  by (simp add: logFormattedEntry_def)

lemma logFormattedEntry_emitted:
  "logLevel \<le> globalLogLevel w \<Longrightarrow>
   logFormattedEntry Sprintf now logLevel message args w =
     (Sprintf ''%s %s %s'' [VString now, VLogLevel logLevel, VString (Sprintf message args)],
      w\<lparr>stderr := stderr w @
        Sprintf ''%s %s %s'' [VString now, VLogLevel logLevel, VString (Sprintf message args)]
        @ [CHR 0x0A]\<rparr>)"
  by (simp add: logFormattedEntry_def Let_def)

lemma logFormattedEntry_level:
  "globalLogLevel (snd (logFormattedEntry Sprintf now logLevel message args w)) = globalLogLevel w"
  by (simp add: logFormattedEntry_def Let_def)

lemma logEntry_level:
  "globalLogLevel (snd (logEntry Sprintf now logLevel message args w)) = globalLogLevel w"
  by (simp add: logEntry_def logFormattedEntry_level)

lemma logErrorEntry_level:
  "globalLogLevel (snd (logErrorEntry Sprintf now logLevel err w)) = globalLogLevel w"
  by (simp add: logErrorEntry_def logEntry_level Let_def split: option.split)

lemma logFormattedEntry_line:
  "fmt_agrees Sprintf \<Longrightarrow> logLevel \<le> globalLogLevel w \<Longrightarrow>
   logFormattedEntry Sprintf now logLevel message args w =
     (rendered_line now logLevel (Sprintf message args),
      w\<lparr>stderr := stderr w @ rendered_line now logLevel (Sprintf message args) @ [CHR 0x0A]\<rparr>)"
  by (simp add: logFormattedEntry_emitted agrees_entry)

lemma logEntry_line:
  "fmt_agrees Sprintf \<Longrightarrow> logLevel \<le> globalLogLevel w \<Longrightarrow>
   logEntry Sprintf now logLevel message args w =
     (rendered_line now logLevel (Sprintf (append_args Sprintf message args) []),
      w\<lparr>stderr := stderr w
        @ rendered_line now logLevel (Sprintf (append_args Sprintf message args) [])
        @ [CHR 0x0A]\<rparr>)"
  by (simp add: logEntry_def logFormattedEntry_line)

lemma logEntry_suppressed:
  "globalLogLevel w < logLevel \<Longrightarrow> logEntry Sprintf now logLevel message args w = ('''', w)"
  by (simp add: logEntry_def logFormattedEntry_suppressed)

lemma logErrorEntry_Some:
  "fmt_agrees Sprintf \<Longrightarrow>
   logErrorEntry Sprintf now logLevel (Some e) w =
     (Some e, snd (logFormattedEntry Sprintf now logLevel (Error_text e) [] w))"
  by (simp add: logErrorEntry_def logEntry_def agrees_plus_v)

lemma logErrorEntry_nil: "logErrorEntry Sprintf now logLevel None w = (None, w)"
  by (simp add: logErrorEntry_def)

lemma append_args_strings:
  "fmt_agrees Sprintf \<Longrightarrow>
   append_args Sprintf entryString (map VString ss)
     = entryString @ concat (map (\<lambda>s. '' '' @ s) ss)"
  by (induction ss arbitrary: entryString) (simp_all add: agrees_space_s)

lemma wrap_suppressed_logEntry:
  "globalLogLevel w < logLevel \<Longrightarrow>
   wrap (logEntry Sprintf now logLevel message args w) = (Some (errorString ''''), w)"
  by (simp add: wrap_def logEntry_suppressed errors_New_def)

lemma wrap_suppressed_logFormattedEntry:
  "globalLogLevel w < logLevel \<Longrightarrow>
   wrap (logFormattedEntry Sprintf now logLevel message args w) = (Some (errorString ''''), w)"
  by (simp add: wrap_def logFormattedEntry_suppressed errors_New_def)

lemma wrap_emitted_logEntry:
  "fmt_agrees Sprintf \<Longrightarrow> logLevel \<le> globalLogLevel w \<Longrightarrow>
   wrap (logEntry Sprintf now logLevel message args w) =
     (Some (errorString
        (rendered_line now logLevel (Sprintf (append_args Sprintf message args) []))),
      w\<lparr>stderr := stderr w
        @ rendered_line now logLevel (Sprintf (append_args Sprintf message args) [])
        @ [CHR 0x0A]\<rparr>)"
  by (simp add: wrap_def logEntry_line errors_New_def)

lemma wrap_emitted_logFormattedEntry:
  "fmt_agrees Sprintf \<Longrightarrow> logLevel \<le> globalLogLevel w \<Longrightarrow>
   wrap (logFormattedEntry Sprintf now logLevel message args w) =
     (Some (errorString (rendered_line now logLevel (Sprintf message args))),
      w\<lparr>stderr := stderr w @ rendered_line now logLevel (Sprintf message args)
        @ [CHR 0x0A]\<rparr>)"
  by (simp add: wrap_def logFormattedEntry_line errors_New_def)

subsection \<open>Level labels\<close>

text \<open>
  Claim C8. The label function sends the ordinals 0 to 6 to FATAL, CRITICAL, ERROR,
  WARNING, NOTICE, INFO and DEBUG in this order, and every other integer to the text
  "unknown".
\<close>

theorem LogLevel_String_labels:
  "LogLevel_String 0 = ''FATAL'' \<and> LogLevel_String 1 = ''CRITICAL'' \<and>
   LogLevel_String 2 = ''ERROR'' \<and> LogLevel_String 3 = ''WARNING'' \<and>
   LogLevel_String 4 = ''NOTICE'' \<and> LogLevel_String 5 = ''INFO'' \<and>
   LogLevel_String 6 = ''DEBUG'' \<and>
   (\<forall>l. l < 0 \<or> 6 < l \<longrightarrow> LogLevel_String l = ''unknown'')"
  by (simp add: LogLevel_String_def level_defs)

theorem LogLevel_String_labels_witness:
  "(6::int) < 7 \<and> LogLevel_String 7 = ''unknown'' \<and>
   (- 1 :: int) < 0 \<and> LogLevel_String (- 1) = ''unknown''"
  using LogLevel_String_labels by simp

subsection \<open>The threshold\<close>

text \<open>
  Claim C7. For every integer X, in the enumeration or not, SetLevel X overwrites the
  threshold whatever it was before, and GetLevel then returns exactly X; standard error
  is not touched.
\<close>

theorem SetLevel_then_GetLevel:
  "GetLevel (SetLevel X w) = X \<and> SetLevel X (SetLevel Y w) = SetLevel X w \<and>
   stderr (SetLevel X w) = stderr w"
  by (simp add: GetLevel_def SetLevel_def)

text \<open>
  Claim C1. For every level S and threshold, the formatting primitive extends standard
  error exactly when S is at most the threshold. When it does, what it appends is the
  string it returns followed by a newline; when S is above the threshold it returns the
  empty string and leaves the world as it was.
\<close>

theorem logFormattedEntry_gate:
  "(stderr (snd (logFormattedEntry Sprintf now S message args w)) \<noteq> stderr w)
     = (S \<le> globalLogLevel w) \<and>
   (S \<le> globalLogLevel w \<longrightarrow>
      snd (logFormattedEntry Sprintf now S message args w) =
        w\<lparr>stderr := stderr w @ fst (logFormattedEntry Sprintf now S message args w)
          @ [CHR 0x0A]\<rparr>) \<and>
   (globalLogLevel w < S \<longrightarrow> logFormattedEntry Sprintf now S message args w = ('''', w))"
  by (simp add: logFormattedEntry_def Let_def)

theorem logFormattedEntry_gate_witness:
  "globalLogLevel (SetLevel 0 initial_world) < 3 \<and>
   logFormattedEntry Sprintf_fragment ''2014-01-02 03:04:05'' 3 ''disk at %d'' [VInt 91]
       (SetLevel 0 initial_world)
     = ('''', SetLevel 0 initial_world) \<and>
   3 \<le> globalLogLevel initial_world \<and>
   snd (logFormattedEntry Sprintf_fragment ''2014-01-02 03:04:05'' 3 ''disk at %d'' [VInt 91]
       initial_world)
     = initial_world\<lparr>stderr := ''2014-01-02 03:04:05 WARNING disk at 91'' @ [CHR 0x0A]\<rparr>"
  using
    logFormattedEntry_gate [of Sprintf_fragment "''2014-01-02 03:04:05''" 3 "''disk at %d''"
      "[VInt 91]" "SetLevel 0 initial_world"]
    logFormattedEntry_gate [of Sprintf_fragment "''2014-01-02 03:04:05''" 3 "''disk at %d''"
      "[VInt 91]" "initial_world"]
  by (simp add: SetLevel_def initial_world_def DEBUG_def logFormattedEntry_def
      Sprintf_fragment_def printArg_def verb_char_def strconv_Itoa_def digits.simps
      LogLevel_String_def level_defs)

text \<open>
  Claim C9. Every logging operation, the FATAL family included, returns a world whose
  threshold is the one it was given; SetLevel is the operation that changes it.
\<close>

theorem logging_keeps_threshold:
  "globalLogLevel (snd (Debug Sprintf now message args w)) = globalLogLevel w \<and>
   globalLogLevel (snd (Debugf Sprintf now message args w)) = globalLogLevel w \<and>
   globalLogLevel (snd (Info Sprintf now message args w)) = globalLogLevel w \<and>
   globalLogLevel (snd (Infof Sprintf now message args w)) = globalLogLevel w \<and>
   globalLogLevel (snd (Notice Sprintf now message args w)) = globalLogLevel w \<and>
   globalLogLevel (snd (Noticef Sprintf now message args w)) = globalLogLevel w \<and>
   globalLogLevel (snd (Warning Sprintf now message args w)) = globalLogLevel w \<and>
   globalLogLevel (snd (Warningf Sprintf now message args w)) = globalLogLevel w \<and>
   globalLogLevel (snd (Error Sprintf now message args w)) = globalLogLevel w \<and>
   globalLogLevel (snd (Errorf Sprintf now message args w)) = globalLogLevel w \<and>
   globalLogLevel (snd (Errore Sprintf now err w)) = globalLogLevel w \<and>
   globalLogLevel (snd (Critical Sprintf now message args w)) = globalLogLevel w \<and>
   globalLogLevel (snd (Criticalf Sprintf now message args w)) = globalLogLevel w \<and>
   globalLogLevel (snd (Criticale Sprintf now err w)) = globalLogLevel w \<and>
   globalLogLevel (snd (Fatal Sprintf now message args w)) = globalLogLevel w \<and>
   globalLogLevel (snd (Fatalf Sprintf now message args w)) = globalLogLevel w \<and>
   globalLogLevel (snd (Fatale Sprintf now err w)) = globalLogLevel w \<and>
   globalLogLevel (SetLevel X w) = X"
  by (simp add: Debug_def Debugf_def Info_def Infof_def Notice_def Noticef_def
      Warning_def Warningf_def Error_def Errorf_def Errore_def Critical_def Criticalf_def
      Criticale_def Fatal_def Fatalf_def Fatale_def wrap_def SetLevel_def
      logFormattedEntry_level logEntry_level logErrorEntry_level)

subsection \<open>Errors returned\<close>

text \<open>
  Claim C3. Warning, Warningf, Error, Errorf, Critical and Criticalf return a non-nil
  error that wraps the string the emission path returned. When the level passes the
  threshold that string is the rendered line, which is also the line written to standard
  error. When the level is above the threshold the string is empty: the call writes
  nothing and still returns a non-nil error, wrapping the empty string. With the
  threshold at FATAL this is the case of all six.
\<close>

theorem error_wrapping_levels:
  "fst (Warning Sprintf now message args w)
     = Some (errorString (fst (logEntry Sprintf now WARNING message args w))) \<and>
   fst (Warningf Sprintf now message args w)
     = Some (errorString (fst (logFormattedEntry Sprintf now WARNING message args w))) \<and>
   fst (Error Sprintf now message args w)
     = Some (errorString (fst (logEntry Sprintf now ERROR message args w))) \<and>
   fst (Errorf Sprintf now message args w)
     = Some (errorString (fst (logFormattedEntry Sprintf now ERROR message args w))) \<and>
   fst (Critical Sprintf now message args w)
     = Some (errorString (fst (logEntry Sprintf now CRITICAL message args w))) \<and>
   fst (Criticalf Sprintf now message args w)
     = Some (errorString (fst (logFormattedEntry Sprintf now CRITICAL message args w))) \<and>
   (globalLogLevel w < WARNING \<longrightarrow>
      Warning Sprintf now message args w = (Some (errorString ''''), w) \<and>
      Warningf Sprintf now message args w = (Some (errorString ''''), w)) \<and>
   (globalLogLevel w < ERROR \<longrightarrow>
      Error Sprintf now message args w = (Some (errorString ''''), w) \<and>
      Errorf Sprintf now message args w = (Some (errorString ''''), w)) \<and>
   (globalLogLevel w < CRITICAL \<longrightarrow>
      Critical Sprintf now message args w = (Some (errorString ''''), w) \<and>
      Criticalf Sprintf now message args w = (Some (errorString ''''), w)) \<and>
   (fmt_agrees Sprintf \<and> WARNING \<le> globalLogLevel w \<longrightarrow>
      Warning Sprintf now message args w =
        (Some (errorString
           (rendered_line now WARNING (Sprintf (append_args Sprintf message args) []))),
         w\<lparr>stderr := stderr w
           @ rendered_line now WARNING (Sprintf (append_args Sprintf message args) [])
           @ [CHR 0x0A]\<rparr>) \<and>
      Warningf Sprintf now message args w =
        (Some (errorString (rendered_line now WARNING (Sprintf message args))),
         w\<lparr>stderr := stderr w @ rendered_line now WARNING (Sprintf message args)
           @ [CHR 0x0A]\<rparr>)) \<and>
   (fmt_agrees Sprintf \<and> ERROR \<le> globalLogLevel w \<longrightarrow>
      Error Sprintf now message args w =
        (Some (errorString
           (rendered_line now ERROR (Sprintf (append_args Sprintf message args) []))),
         w\<lparr>stderr := stderr w
           @ rendered_line now ERROR (Sprintf (append_args Sprintf message args) [])
           @ [CHR 0x0A]\<rparr>) \<and>
      Errorf Sprintf now message args w =
        (Some (errorString (rendered_line now ERROR (Sprintf message args))),
         w\<lparr>stderr := stderr w @ rendered_line now ERROR (Sprintf message args)
           @ [CHR 0x0A]\<rparr>)) \<and>
   (fmt_agrees Sprintf \<and> CRITICAL \<le> globalLogLevel w \<longrightarrow>
      Critical Sprintf now message args w =
        (Some (errorString
           (rendered_line now CRITICAL (Sprintf (append_args Sprintf message args) []))),
         w\<lparr>stderr := stderr w
           @ rendered_line now CRITICAL (Sprintf (append_args Sprintf message args) [])
           @ [CHR 0x0A]\<rparr>) \<and>
      Criticalf Sprintf now message args w =
        (Some (errorString (rendered_line now CRITICAL (Sprintf message args))),
         w\<lparr>stderr := stderr w @ rendered_line now CRITICAL (Sprintf message args)
           @ [CHR 0x0A]\<rparr>))"
proof -
  have wrapped:
    "fst (Warning Sprintf now message args w)
       = Some (errorString (fst (logEntry Sprintf now WARNING message args w)))"
    "fst (Warningf Sprintf now message args w)
       = Some (errorString (fst (logFormattedEntry Sprintf now WARNING message args w)))"
    "fst (Error Sprintf now message args w)
       = Some (errorString (fst (logEntry Sprintf now ERROR message args w)))"
    "fst (Errorf Sprintf now message args w)
       = Some (errorString (fst (logFormattedEntry Sprintf now ERROR message args w)))"
    "fst (Critical Sprintf now message args w)
       = Some (errorString (fst (logEntry Sprintf now CRITICAL message args w)))"
    "fst (Criticalf Sprintf now message args w)
       = Some (errorString (fst (logFormattedEntry Sprintf now CRITICAL message args w)))"
    by (simp_all add: Warning_def Warningf_def Error_def Errorf_def Critical_def Criticalf_def
        wrap_def errors_New_def)
  have suppressed:
    "globalLogLevel w < WARNING \<longrightarrow>
      Warning Sprintf now message args w = (Some (errorString ''''), w) \<and>
      Warningf Sprintf now message args w = (Some (errorString ''''), w)"
    "globalLogLevel w < ERROR \<longrightarrow>
      Error Sprintf now message args w = (Some (errorString ''''), w) \<and>
      Errorf Sprintf now message args w = (Some (errorString ''''), w)"
    "globalLogLevel w < CRITICAL \<longrightarrow>
      Critical Sprintf now message args w = (Some (errorString ''''), w) \<and>
      Criticalf Sprintf now message args w = (Some (errorString ''''), w)"
    by (simp_all add: Warning_def Warningf_def Error_def Errorf_def Critical_def Criticalf_def
        wrap_suppressed_logEntry wrap_suppressed_logFormattedEntry)
  have emitted:
    "fmt_agrees Sprintf \<and> WARNING \<le> globalLogLevel w \<longrightarrow>
      Warning Sprintf now message args w =
        (Some (errorString
           (rendered_line now WARNING (Sprintf (append_args Sprintf message args) []))),
         w\<lparr>stderr := stderr w
           @ rendered_line now WARNING (Sprintf (append_args Sprintf message args) [])
           @ [CHR 0x0A]\<rparr>) \<and>
      Warningf Sprintf now message args w =
        (Some (errorString (rendered_line now WARNING (Sprintf message args))),
         w\<lparr>stderr := stderr w @ rendered_line now WARNING (Sprintf message args)
           @ [CHR 0x0A]\<rparr>)"
    "fmt_agrees Sprintf \<and> ERROR \<le> globalLogLevel w \<longrightarrow>
      Error Sprintf now message args w =
        (Some (errorString
           (rendered_line now ERROR (Sprintf (append_args Sprintf message args) []))),
         w\<lparr>stderr := stderr w
           @ rendered_line now ERROR (Sprintf (append_args Sprintf message args) [])
           @ [CHR 0x0A]\<rparr>) \<and>
      Errorf Sprintf now message args w =
        (Some (errorString (rendered_line now ERROR (Sprintf message args))),
         w\<lparr>stderr := stderr w @ rendered_line now ERROR (Sprintf message args)
           @ [CHR 0x0A]\<rparr>)"
    "fmt_agrees Sprintf \<and> CRITICAL \<le> globalLogLevel w \<longrightarrow>
      Critical Sprintf now message args w =
        (Some (errorString
           (rendered_line now CRITICAL (Sprintf (append_args Sprintf message args) []))),
         w\<lparr>stderr := stderr w
           @ rendered_line now CRITICAL (Sprintf (append_args Sprintf message args) [])
           @ [CHR 0x0A]\<rparr>) \<and>
      Criticalf Sprintf now message args w =
        (Some (errorString (rendered_line now CRITICAL (Sprintf message args))),
         w\<lparr>stderr := stderr w @ rendered_line now CRITICAL (Sprintf message args)
           @ [CHR 0x0A]\<rparr>)"
    by (simp_all add: Warning_def Warningf_def Error_def Errorf_def Critical_def Criticalf_def
        wrap_emitted_logEntry wrap_emitted_logFormattedEntry)
  from wrapped suppressed emitted show ?thesis by blast
qed

theorem error_wrapping_levels_witness:
  "globalLogLevel (SetLevel FATAL initial_world) < WARNING \<and>
   globalLogLevel (SetLevel FATAL initial_world) < ERROR \<and>
   globalLogLevel (SetLevel FATAL initial_world) < CRITICAL \<and>
   stderr (SetLevel FATAL initial_world) = [] \<and>
   Warning Sprintf_fragment ''2014-01-02 03:04:05'' ''disk'' [VString ''full'']
       (SetLevel FATAL initial_world)
     = (Some (errorString ''''), SetLevel FATAL initial_world) \<and>
   Errorf Sprintf_fragment ''2014-01-02 03:04:05'' ''disk'' [VString ''full'']
       (SetLevel FATAL initial_world)
     = (Some (errorString ''''), SetLevel FATAL initial_world) \<and>
   Critical Sprintf_fragment ''2014-01-02 03:04:05'' ''disk'' [VString ''full'']
       (SetLevel FATAL initial_world)
     = (Some (errorString ''''), SetLevel FATAL initial_world) \<and>
   fmt_agrees Sprintf_fragment \<and>
   WARNING \<le> globalLogLevel initial_world \<and>
   ERROR \<le> globalLogLevel initial_world \<and>
   CRITICAL \<le> globalLogLevel initial_world \<and>
   Warning Sprintf_fragment ''2014-01-02 03:04:05'' ''disk'' [VString ''full''] initial_world
     = (Some (errorString ''2014-01-02 03:04:05 WARNING disk full''),
        \<lparr>globalLogLevel = DEBUG,
         stderr = ''2014-01-02 03:04:05 WARNING disk full'' @ [CHR 0x0A]\<rparr>) \<and>
   Errorf Sprintf_fragment ''2014-01-02 03:04:05'' ''disk %s at %d'' [VString ''full'', VInt 91]
       initial_world
     = (Some (errorString ''2014-01-02 03:04:05 ERROR disk full at 91''),
        \<lparr>globalLogLevel = DEBUG,
         stderr = ''2014-01-02 03:04:05 ERROR disk full at 91'' @ [CHR 0x0A]\<rparr>) \<and>
   Critical Sprintf_fragment ''2014-01-02 03:04:05'' ''disk'' [VString ''full''] initial_world
     = (Some (errorString ''2014-01-02 03:04:05 CRITICAL disk full''),
        \<lparr>globalLogLevel = DEBUG,
         stderr = ''2014-01-02 03:04:05 CRITICAL disk full'' @ [CHR 0x0A]\<rparr>)"
proof -
  note low = error_wrapping_levels [of Sprintf_fragment "''2014-01-02 03:04:05''" "''disk''"
      "[VString ''full'']" "SetLevel FATAL initial_world"]
  note high = error_wrapping_levels [of Sprintf_fragment "''2014-01-02 03:04:05''" "''disk''"
      "[VString ''full'']" initial_world]
  note highf = error_wrapping_levels [of Sprintf_fragment "''2014-01-02 03:04:05''"
      "''disk %s at %d''" "[VString ''full'', VInt 91]" initial_world]
  have below:
    "globalLogLevel (SetLevel FATAL initial_world) < WARNING"
    "globalLogLevel (SetLevel FATAL initial_world) < ERROR"
    "globalLogLevel (SetLevel FATAL initial_world) < CRITICAL"
    "stderr (SetLevel FATAL initial_world) = []"
    by (simp_all add: SetLevel_def initial_world_def level_defs)
  have above:
    "WARNING \<le> globalLogLevel initial_world"
    "ERROR \<le> globalLogLevel initial_world"
    "CRITICAL \<le> globalLogLevel initial_world"
    by (simp_all add: initial_world_def level_defs)
  have s1: "Warning Sprintf_fragment ''2014-01-02 03:04:05'' ''disk'' [VString ''full'']
       (SetLevel FATAL initial_world)
     = (Some (errorString ''''), SetLevel FATAL initial_world)"
    and s2: "Errorf Sprintf_fragment ''2014-01-02 03:04:05'' ''disk'' [VString ''full'']
       (SetLevel FATAL initial_world)
     = (Some (errorString ''''), SetLevel FATAL initial_world)"
    and s3: "Critical Sprintf_fragment ''2014-01-02 03:04:05'' ''disk'' [VString ''full'']
       (SetLevel FATAL initial_world)
     = (Some (errorString ''''), SetLevel FATAL initial_world)"
    using low below by blast+
  have e1: "Warning Sprintf_fragment ''2014-01-02 03:04:05'' ''disk'' [VString ''full'']
        initial_world
     = (Some (errorString (rendered_line ''2014-01-02 03:04:05'' WARNING
          (Sprintf_fragment (append_args Sprintf_fragment ''disk'' [VString ''full'']) []))),
        initial_world\<lparr>stderr := stderr initial_world
          @ rendered_line ''2014-01-02 03:04:05'' WARNING
              (Sprintf_fragment (append_args Sprintf_fragment ''disk'' [VString ''full'']) [])
          @ [CHR 0x0A]\<rparr>)"
    using high above Sprintf_fragment_agrees by blast
  have e2: "Errorf Sprintf_fragment ''2014-01-02 03:04:05'' ''disk %s at %d''
        [VString ''full'', VInt 91] initial_world
     = (Some (errorString (rendered_line ''2014-01-02 03:04:05'' ERROR
          (Sprintf_fragment ''disk %s at %d'' [VString ''full'', VInt 91]))),
        initial_world\<lparr>stderr := stderr initial_world
          @ rendered_line ''2014-01-02 03:04:05'' ERROR
              (Sprintf_fragment ''disk %s at %d'' [VString ''full'', VInt 91])
          @ [CHR 0x0A]\<rparr>)"
    using highf above Sprintf_fragment_agrees by blast
  have e3: "Critical Sprintf_fragment ''2014-01-02 03:04:05'' ''disk'' [VString ''full'']
        initial_world
     = (Some (errorString (rendered_line ''2014-01-02 03:04:05'' CRITICAL
          (Sprintf_fragment (append_args Sprintf_fragment ''disk'' [VString ''full'']) []))),
        initial_world\<lparr>stderr := stderr initial_world
          @ rendered_line ''2014-01-02 03:04:05'' CRITICAL
              (Sprintf_fragment (append_args Sprintf_fragment ''disk'' [VString ''full'']) [])
          @ [CHR 0x0A]\<rparr>)"
    using high above Sprintf_fragment_agrees by blast
  have f1: "Warning Sprintf_fragment ''2014-01-02 03:04:05'' ''disk'' [VString ''full'']
        initial_world
     = (Some (errorString ''2014-01-02 03:04:05 WARNING disk full''),
        \<lparr>globalLogLevel = DEBUG,
         stderr = ''2014-01-02 03:04:05 WARNING disk full'' @ [CHR 0x0A]\<rparr>)"
    using e1
    by (simp add: Sprintf_fragment_def printArg_def verb_char_def rendered_line_def
        LogLevel_String_def level_defs initial_world_def)
  have f2: "Errorf Sprintf_fragment ''2014-01-02 03:04:05'' ''disk %s at %d''
        [VString ''full'', VInt 91] initial_world
     = (Some (errorString ''2014-01-02 03:04:05 ERROR disk full at 91''),
        \<lparr>globalLogLevel = DEBUG,
         stderr = ''2014-01-02 03:04:05 ERROR disk full at 91'' @ [CHR 0x0A]\<rparr>)"
    using e2
    by (simp add: Sprintf_fragment_def printArg_def verb_char_def strconv_Itoa_def digits.simps
        rendered_line_def LogLevel_String_def level_defs initial_world_def)
  have f3: "Critical Sprintf_fragment ''2014-01-02 03:04:05'' ''disk'' [VString ''full'']
        initial_world
     = (Some (errorString ''2014-01-02 03:04:05 CRITICAL disk full''),
        \<lparr>globalLogLevel = DEBUG,
         stderr = ''2014-01-02 03:04:05 CRITICAL disk full'' @ [CHR 0x0A]\<rparr>)"
    using e3
    by (simp add: Sprintf_fragment_def printArg_def verb_char_def rendered_line_def
        LogLevel_String_def level_defs initial_world_def)
  from below above s1 s2 s3 f1 f2 f3 Sprintf_fragment_agrees show ?thesis
    by simp
qed

subsection \<open>The FATAL family\<close>

text \<open>
  Claim C4, as amended. Fatal, Fatalf and Fatale end the process with exit status 1
  whatever the threshold and whatever the error; Fatale with a nil error writes nothing.
  When the threshold is 0 or more, which covers the seven defined levels, each of Fatal,
  Fatalf and Fatale with a non-nil error first appends exactly one entry to standard
  error: the timestamp, the label FATAL, the message that the emission path renders, and
  a newline. For Fatal with string arguments and for Fatale, when the text has no percent
  sign, that message is the text itself. When the threshold is negative the entry is
  filtered like any other and the process exits without having written anything.
  Fatalf's message is the one \<^verbatim>\<open>logEntry\<close> renders, since that is the path Fatalf calls.
\<close>

theorem Fatal_family:
  "fst (Fatal Sprintf now message args w) = Exits 1 \<and>
   fst (Fatalf Sprintf now message args w) = Exits 1 \<and>
   fst (Fatale Sprintf now err w) = Exits 1 \<and>
   Fatale Sprintf now None w = (Exits 1, w) \<and>
   (fmt_agrees Sprintf \<and> 0 \<le> globalLogLevel w \<longrightarrow>
      Fatal Sprintf now message args w =
        (Exits 1,
         w\<lparr>stderr := stderr w
           @ rendered_line now FATAL (Sprintf (append_args Sprintf message args) [])
           @ [CHR 0x0A]\<rparr>) \<and>
      Fatalf Sprintf now message args w =
        (Exits 1,
         w\<lparr>stderr := stderr w
           @ rendered_line now FATAL (Sprintf (append_args Sprintf message args) [])
           @ [CHR 0x0A]\<rparr>) \<and>
      Fatale Sprintf now (Some e) w =
        (Exits 1,
         w\<lparr>stderr := stderr w @ rendered_line now FATAL (Sprintf (Error_text e) [])
           @ [CHR 0x0A]\<rparr>)) \<and>
   (fmt_agrees Sprintf \<and> 0 \<le> globalLogLevel w \<and>
    CHR ''%'' \<notin> set (message @ concat (map (\<lambda>s. '' '' @ s) ss)) \<longrightarrow>
      Fatal Sprintf now message (map VString ss) w =
        (Exits 1,
         w\<lparr>stderr := stderr w
           @ rendered_line now FATAL (message @ concat (map (\<lambda>s. '' '' @ s) ss))
           @ [CHR 0x0A]\<rparr>)) \<and>
   (fmt_agrees Sprintf \<and> 0 \<le> globalLogLevel w \<and> CHR ''%'' \<notin> set (Error_text e) \<longrightarrow>
      Fatale Sprintf now (Some e) w =
        (Exits 1,
         w\<lparr>stderr := stderr w @ rendered_line now FATAL (Error_text e) @ [CHR 0x0A]\<rparr>)) \<and>
   (globalLogLevel w < 0 \<longrightarrow>
      Fatal Sprintf now message args w = (Exits 1, w) \<and>
      Fatalf Sprintf now message args w = (Exits 1, w) \<and>
      Fatale Sprintf now err w = (Exits 1, w))"
proof -
  have exits:
    "fst (Fatal Sprintf now message args w) = Exits 1"
    "fst (Fatalf Sprintf now message args w) = Exits 1"
    "fst (Fatale Sprintf now err w) = Exits 1"
    "Fatale Sprintf now None w = (Exits 1, w)"
    by (simp_all add: Fatal_def Fatalf_def Fatale_def logErrorEntry_nil)
  have emitted: "fmt_agrees Sprintf \<and> 0 \<le> globalLogLevel w \<longrightarrow>
      Fatal Sprintf now message args w =
        (Exits 1,
         w\<lparr>stderr := stderr w
           @ rendered_line now FATAL (Sprintf (append_args Sprintf message args) [])
           @ [CHR 0x0A]\<rparr>) \<and>
      Fatalf Sprintf now message args w =
        (Exits 1,
         w\<lparr>stderr := stderr w
           @ rendered_line now FATAL (Sprintf (append_args Sprintf message args) [])
           @ [CHR 0x0A]\<rparr>) \<and>
      Fatale Sprintf now (Some e) w =
        (Exits 1,
         w\<lparr>stderr := stderr w @ rendered_line now FATAL (Sprintf (Error_text e) [])
           @ [CHR 0x0A]\<rparr>)"
    by (simp add: Fatal_def Fatalf_def Fatale_def logEntry_line logErrorEntry_Some
        logFormattedEntry_line FATAL_def)
  have plain: "fmt_agrees Sprintf \<and> 0 \<le> globalLogLevel w \<and>
      CHR ''%'' \<notin> set (message @ concat (map (\<lambda>s. '' '' @ s) ss)) \<longrightarrow>
      Fatal Sprintf now message (map VString ss) w =
        (Exits 1,
         w\<lparr>stderr := stderr w
           @ rendered_line now FATAL (message @ concat (map (\<lambda>s. '' '' @ s) ss))
           @ [CHR 0x0A]\<rparr>)"
    by (simp add: Fatal_def logEntry_line append_args_strings agrees_no_percent FATAL_def)
  have plain_error: "fmt_agrees Sprintf \<and> 0 \<le> globalLogLevel w \<and>
      CHR ''%'' \<notin> set (Error_text e) \<longrightarrow>
      Fatale Sprintf now (Some e) w =
        (Exits 1,
         w\<lparr>stderr := stderr w @ rendered_line now FATAL (Error_text e) @ [CHR 0x0A]\<rparr>)"
    by (simp add: Fatale_def logErrorEntry_Some logFormattedEntry_line agrees_no_percent
        FATAL_def)
  have suppressed: "globalLogLevel w < 0 \<longrightarrow>
      Fatal Sprintf now message args w = (Exits 1, w) \<and>
      Fatalf Sprintf now message args w = (Exits 1, w) \<and>
      Fatale Sprintf now err w = (Exits 1, w)"
    by (cases err)
      (simp_all add: Fatal_def Fatalf_def Fatale_def logEntry_suppressed logErrorEntry_def
        FATAL_def)
  from exits emitted plain plain_error suppressed show ?thesis by blast
qed

theorem Fatal_family_witness:
  "fmt_agrees Sprintf_fragment \<and> 0 \<le> globalLogLevel initial_world \<and>
   CHR ''%'' \<notin> set (''disk'' @ concat (map (\<lambda>s. '' '' @ s) [''full''])) \<and>
   CHR ''%'' \<notin> set (Error_text (errorString ''boom'')) \<and>
   Fatal Sprintf_fragment ''2014-01-02 03:04:05'' ''disk'' [VString ''full''] initial_world
     = (Exits 1,
        \<lparr>globalLogLevel = DEBUG,
         stderr = ''2014-01-02 03:04:05 FATAL disk full'' @ [CHR 0x0A]\<rparr>) \<and>
   Fatalf Sprintf_fragment ''2014-01-02 03:04:05'' ''disk'' [VString ''full''] initial_world
     = (Exits 1,
        \<lparr>globalLogLevel = DEBUG,
         stderr = ''2014-01-02 03:04:05 FATAL disk full'' @ [CHR 0x0A]\<rparr>) \<and>
   Fatale Sprintf_fragment ''2014-01-02 03:04:05'' (Some (errorString ''boom'')) initial_world
     = (Exits 1,
        \<lparr>globalLogLevel = DEBUG,
         stderr = ''2014-01-02 03:04:05 FATAL boom'' @ [CHR 0x0A]\<rparr>) \<and>
   globalLogLevel (SetLevel (- 1) initial_world) < 0 \<and>
   Fatalf Sprintf_fragment ''2014-01-02 03:04:05'' ''disk'' [VString ''full'']
       (SetLevel (- 1) initial_world)
     = (Exits 1, SetLevel (- 1) initial_world) \<and>
   Fatale Sprintf_fragment ''2014-01-02 03:04:05'' (Some (errorString ''boom''))
       (SetLevel (- 1) initial_world)
     = (Exits 1, SetLevel (- 1) initial_world)"
proof -
  note high = Fatal_family [of Sprintf_fragment "''2014-01-02 03:04:05''" "''disk''"
      "map VString [''full'']" initial_world "Some (errorString ''boom'')"
      "errorString ''boom''" "[''full'']"]
  note low = Fatal_family [of Sprintf_fragment "''2014-01-02 03:04:05''" "''disk''"
      "[VString ''full'']" "SetLevel (- 1) initial_world" "Some (errorString ''boom'')"
      "errorString ''boom''" "[''full'']"]
  have pre:
    "0 \<le> globalLogLevel initial_world"
    "CHR ''%'' \<notin> set (''disk'' @ concat (map (\<lambda>s. '' '' @ s) [''full'']))"
    "CHR ''%'' \<notin> set (Error_text (errorString ''boom''))"
    "globalLogLevel (SetLevel (- 1) initial_world) < 0"
    by (simp_all add: initial_world_def SetLevel_def DEBUG_def)
  have e1: "Fatal Sprintf_fragment ''2014-01-02 03:04:05'' ''disk'' (map VString [''full''])
        initial_world
     = (Exits 1,
        initial_world\<lparr>stderr := stderr initial_world
          @ rendered_line ''2014-01-02 03:04:05'' FATAL
              (''disk'' @ concat (map (\<lambda>s. '' '' @ s) [''full'']))
          @ [CHR 0x0A]\<rparr>)"
    using high pre Sprintf_fragment_agrees by blast
  have e2: "Fatalf Sprintf_fragment ''2014-01-02 03:04:05'' ''disk'' (map VString [''full''])
        initial_world
     = (Exits 1,
        initial_world\<lparr>stderr := stderr initial_world
          @ rendered_line ''2014-01-02 03:04:05'' FATAL
              (Sprintf_fragment
                (append_args Sprintf_fragment ''disk'' (map VString [''full''])) [])
          @ [CHR 0x0A]\<rparr>)"
    using high pre Sprintf_fragment_agrees by blast
  have e3: "Fatale Sprintf_fragment ''2014-01-02 03:04:05'' (Some (errorString ''boom''))
        initial_world
     = (Exits 1,
        initial_world\<lparr>stderr := stderr initial_world
          @ rendered_line ''2014-01-02 03:04:05'' FATAL (Error_text (errorString ''boom''))
          @ [CHR 0x0A]\<rparr>)"
    using high pre Sprintf_fragment_agrees by blast
  have f1: "Fatal Sprintf_fragment ''2014-01-02 03:04:05'' ''disk'' [VString ''full'']
        initial_world
     = (Exits 1,
        \<lparr>globalLogLevel = DEBUG,
         stderr = ''2014-01-02 03:04:05 FATAL disk full'' @ [CHR 0x0A]\<rparr>)"
    using e1
    by (simp add: rendered_line_def LogLevel_String_def level_defs initial_world_def)
  have f2: "Fatalf Sprintf_fragment ''2014-01-02 03:04:05'' ''disk'' [VString ''full'']
        initial_world
     = (Exits 1,
        \<lparr>globalLogLevel = DEBUG,
         stderr = ''2014-01-02 03:04:05 FATAL disk full'' @ [CHR 0x0A]\<rparr>)"
    using e2
    by (simp add: Sprintf_fragment_def printArg_def verb_char_def rendered_line_def
        LogLevel_String_def level_defs initial_world_def)
  have f3: "Fatale Sprintf_fragment ''2014-01-02 03:04:05'' (Some (errorString ''boom''))
        initial_world
     = (Exits 1,
        \<lparr>globalLogLevel = DEBUG,
         stderr = ''2014-01-02 03:04:05 FATAL boom'' @ [CHR 0x0A]\<rparr>)"
    using e3
    by (simp add: rendered_line_def LogLevel_String_def level_defs initial_world_def)
  have s1: "Fatalf Sprintf_fragment ''2014-01-02 03:04:05'' ''disk'' [VString ''full'']
        (SetLevel (- 1) initial_world)
     = (Exits 1, SetLevel (- 1) initial_world)"
    and s2: "Fatale Sprintf_fragment ''2014-01-02 03:04:05'' (Some (errorString ''boom''))
        (SetLevel (- 1) initial_world)
     = (Exits 1, SetLevel (- 1) initial_world)"
    using low pre by blast+
  from pre f1 f2 f3 s1 s2 Sprintf_fragment_agrees show ?thesis
    by simp
qed

text \<open>
  The claim as stated, for every threshold, fails: \<^verbatim>\<open>SetLevel(-1)\<close> is accepted, and
  then \<^verbatim>\<open>Fatal("boom")\<close> exits with status 1 and standard error is still empty.
\<close>

theorem Fatal_below_zero_counterexample:
  "Fatal Sprintf_fragment ''2014-01-02 03:04:05'' ''boom'' [] (SetLevel (- 1) initial_world)
     = (Exits 1, \<lparr>globalLogLevel = - 1, stderr = []\<rparr>)"
  by (simp add: Fatal_def logEntry_def logFormattedEntry_def SetLevel_def initial_world_def FATAL_def)

subsection \<open>Errors passed through\<close>

text \<open>
  Claim C10. Errore and Criticale hand the text of a non-nil error to the formatting
  primitive as its format string, with no operands. When that text has no percent sign
  and the level passes the threshold, the message part of the line written is the text,
  unchanged. For the error whose text is \<^verbatim>\<open>%d\<close> the message part is
  \<^verbatim>\<open>%!d(MISSING)\<close>, which is not the text.
\<close>

theorem error_passthrough_format_step:
  "fmt_agrees Sprintf \<Longrightarrow>
   Errore Sprintf now (Some e) w
     = (Some e, snd (logFormattedEntry Sprintf now ERROR (Error_text e) [] w)) \<and>
   Criticale Sprintf now (Some e) w
     = (Some e, snd (logFormattedEntry Sprintf now CRITICAL (Error_text e) [] w)) \<and>
   (CHR ''%'' \<notin> set (Error_text e) \<and> ERROR \<le> globalLogLevel w \<longrightarrow>
      snd (Errore Sprintf now (Some e) w)
        = w\<lparr>stderr := stderr w @ rendered_line now ERROR (Error_text e) @ [CHR 0x0A]\<rparr>) \<and>
   (CHR ''%'' \<notin> set (Error_text e) \<and> CRITICAL \<le> globalLogLevel w \<longrightarrow>
      snd (Criticale Sprintf now (Some e) w)
        = w\<lparr>stderr := stderr w @ rendered_line now CRITICAL (Error_text e) @ [CHR 0x0A]\<rparr>) \<and>
   (ERROR \<le> globalLogLevel w \<longrightarrow>
      snd (Errore Sprintf now (Some (errorString ''%d'')) w)
        = w\<lparr>stderr := stderr w @ rendered_line now ERROR ''%!d(MISSING)'' @ [CHR 0x0A]\<rparr>) \<and>
   (CRITICAL \<le> globalLogLevel w \<longrightarrow>
      snd (Criticale Sprintf now (Some (errorString ''%d'')) w)
        = w\<lparr>stderr := stderr w @ rendered_line now CRITICAL ''%!d(MISSING)'' @ [CHR 0x0A]\<rparr>) \<and>
   CHR ''%'' \<in> set (Error_text (errorString ''%d'')) \<and>
   ''%!d(MISSING)'' \<noteq> Error_text (errorString ''%d'')"
  by (simp add: Errore_def Criticale_def logErrorEntry_Some logFormattedEntry_line
      agrees_no_percent agrees_missing_d)

theorem error_passthrough_format_step_witness:
  "fmt_agrees Sprintf_fragment \<and>
   CHR ''%'' \<notin> set (Error_text (errorString ''disk full'')) \<and>
   ERROR \<le> globalLogLevel initial_world \<and> CRITICAL \<le> globalLogLevel initial_world \<and>
   snd (Errore Sprintf_fragment ''2014-01-02 03:04:05'' (Some (errorString ''disk full''))
       initial_world)
     = initial_world\<lparr>stderr := ''2014-01-02 03:04:05 ERROR disk full'' @ [CHR 0x0A]\<rparr> \<and>
   snd (Criticale Sprintf_fragment ''2014-01-02 03:04:05'' (Some (errorString ''%d''))
       initial_world)
     = initial_world\<lparr>stderr := ''2014-01-02 03:04:05 CRITICAL %!d(MISSING)'' @ [CHR 0x0A]\<rparr>"
proof -
  note step = error_passthrough_format_step [OF Sprintf_fragment_agrees,
      of "''2014-01-02 03:04:05''" "errorString ''disk full''" initial_world]
  have levels: "ERROR \<le> globalLogLevel initial_world" "CRITICAL \<le> globalLogLevel initial_world"
    by (simp_all add: initial_world_def level_defs)
  have plain: "snd (Errore Sprintf_fragment ''2014-01-02 03:04:05''
        (Some (errorString ''disk full'')) initial_world)
      = initial_world\<lparr>stderr := ''2014-01-02 03:04:05 ERROR disk full'' @ [CHR 0x0A]\<rparr>"
    using step [THEN conjunct2, THEN conjunct2, THEN conjunct1] levels
    by (simp add: initial_world_def level_defs rendered_line_def LogLevel_String_def)
  have verb: "snd (Criticale Sprintf_fragment ''2014-01-02 03:04:05''
        (Some (errorString ''%d'')) initial_world)
      = initial_world\<lparr>stderr := ''2014-01-02 03:04:05 CRITICAL %!d(MISSING)'' @ [CHR 0x0A]\<rparr>"
    using step [THEN conjunct2, THEN conjunct2, THEN conjunct2, THEN conjunct2, THEN conjunct2,
        THEN conjunct1]
      levels
    by (simp add: initial_world_def level_defs rendered_line_def LogLevel_String_def)
  from plain verb levels Sprintf_fragment_agrees show ?thesis by simp
qed

subsection \<open>The two calling conventions\<close>

text \<open>
  What holds of the concatenation convention: string arguments are appended to the
  message, each after one space, and when the result has no percent sign it is the
  message part of the line. \<^verbatim>\<open>Info("a", "b", "c")\<close> at threshold INFO returns a line that
  ends in \<^verbatim>\<open>a b c\<close>.
\<close>

lemma logEntry_plain_strings:
  "fmt_agrees Sprintf \<Longrightarrow> logLevel \<le> globalLogLevel w \<Longrightarrow>
   CHR ''%'' \<notin> set (message @ concat (map (\<lambda>s. '' '' @ s) ss)) \<Longrightarrow>
   logEntry Sprintf now logLevel message (map VString ss) w =
     (rendered_line now logLevel (message @ concat (map (\<lambda>s. '' '' @ s) ss)),
      w\<lparr>stderr := stderr w
        @ rendered_line now logLevel (message @ concat (map (\<lambda>s. '' '' @ s) ss))
        @ [CHR 0x0A]\<rparr>)"
  by (simp add: logEntry_line append_args_strings agrees_no_percent)

lemma Info_a_b_c:
  "fmt_agrees Sprintf \<Longrightarrow>
   fst (Info Sprintf now ''a'' [VString ''b'', VString ''c''] (SetLevel INFO w))
     = now @ '' INFO a b c''"
  using logEntry_plain_strings [of Sprintf INFO "SetLevel INFO w" "''a''" "[''b'', ''c'']" now]
  by (simp add: Info_def SetLevel_def rendered_line_def LogLevel_String_def level_defs)

text \<open>
  Claim C2. The claim says that the concatenation functions never interpret percent
  placeholders of the message. The code hands the concatenated text to
  \<^verbatim>\<open>logFormattedEntry\<close> as its format string: \<^verbatim>\<open>Info("100%")\<close> at the initial threshold
  writes and returns a line whose message is \<^verbatim>\<open>100%!(NOVERB)\<close>, not \<^verbatim>\<open>100%\<close>.
\<close>

theorem Info_interprets_percent:
  "fmt_agrees Sprintf \<Longrightarrow> INFO \<le> globalLogLevel w \<Longrightarrow>
   Info Sprintf now ''100%'' [] w
     = (rendered_line now INFO ''100%!(NOVERB)'',
        w\<lparr>stderr := stderr w @ rendered_line now INFO ''100%!(NOVERB)'' @ [CHR 0x0A]\<rparr>)"
proof -
  assume ag: "fmt_agrees Sprintf" and le: "INFO \<le> globalLogLevel w"
  have "fmt_Sprintf ''100%'' [] = Some ''100%!(NOVERB)''"
    by simp
  with ag have "Sprintf ''100%'' [] = ''100%!(NOVERB)''"
    by (simp add: fmt_agrees_def)
  with ag le show ?thesis
    by (simp add: Info_def logEntry_line)
qed

theorem Info_interprets_percent_witness:
  "fmt_agrees Sprintf_fragment \<and> INFO \<le> globalLogLevel initial_world \<and>
   Info Sprintf_fragment ''2014-01-02 03:04:05'' ''100%'' [] initial_world
     = (''2014-01-02 03:04:05 INFO 100%!(NOVERB)'',
        \<lparr>globalLogLevel = DEBUG,
         stderr = ''2014-01-02 03:04:05 INFO 100%!(NOVERB)'' @ [CHR 0x0A]\<rparr>)"
  using Info_interprets_percent [OF Sprintf_fragment_agrees, of initial_world
      "''2014-01-02 03:04:05''"]
    Sprintf_fragment_agrees
  by (simp add: initial_world_def level_defs rendered_line_def LogLevel_String_def)

text \<open>
  Claim C5. The claim says that Errore with a non-nil error, at a threshold that permits
  ERROR, writes a line containing the error's text and returns the error unchanged. The
  error is returned unchanged, but its text goes through the same format step: for the
  error made by \<^verbatim>\<open>errors.New("%d")\<close> the line written is
  \<^verbatim>\<open><timestamp> ERROR %!d(MISSING)\<close>, in which the text \<^verbatim>\<open>%d\<close> does not occur.
\<close>

theorem Errore_loses_error_text:
  "fmt_agrees Sprintf \<Longrightarrow> ERROR \<le> globalLogLevel w \<Longrightarrow>
   Errore Sprintf now (errors_New ''%d'') w
     = (Some (errorString ''%d''),
        w\<lparr>stderr := stderr w @ rendered_line now ERROR ''%!d(MISSING)'' @ [CHR 0x0A]\<rparr>)"
  by (simp add: Errore_def errors_New_def logErrorEntry_Some logFormattedEntry_line
      agrees_missing_d)

theorem Errore_loses_error_text_witness:
  "fmt_agrees Sprintf_fragment \<and> ERROR \<le> globalLogLevel initial_world \<and>
   Errore Sprintf_fragment ''2014-01-02 03:04:05'' (errors_New ''%d'') initial_world
     = (Some (errorString ''%d''),
        \<lparr>globalLogLevel = DEBUG,
         stderr = ''2014-01-02 03:04:05 ERROR %!d(MISSING)'' @ [CHR 0x0A]\<rparr>) \<and>
   \<not> contains_text (''2014-01-02 03:04:05 ERROR %!d(MISSING)'' @ [CHR 0x0A]) ''%d''"
  using Errore_loses_error_text [OF Sprintf_fragment_agrees, of initial_world
      "''2014-01-02 03:04:05''"]
    Sprintf_fragment_agrees
  by (simp add: initial_world_def level_defs rendered_line_def LogLevel_String_def)

text \<open>
  What holds of the format convention: \<^verbatim>\<open>Infof("count=%d", 5)\<close> at a threshold of INFO or
  above writes and returns the line \<^verbatim>\<open><timestamp> INFO count=5\<close>.
\<close>

lemma Infof_count:
  "fmt_agrees Sprintf \<Longrightarrow> INFO \<le> globalLogLevel w \<Longrightarrow>
   Infof Sprintf now ''count=%d'' [VInt 5] w =
     (now @ '' INFO count=5'', w\<lparr>stderr := stderr w @ now @ '' INFO count=5'' @ [CHR 0x0A]\<rparr>)"
proof -
  assume ag: "fmt_agrees Sprintf" and le: "INFO \<le> globalLogLevel w"
  have "fmt_Sprintf ''count=%d'' [VInt 5] = Some ''count=5''"
    by (simp add: printArg_def verb_char_def strconv_Itoa_def digits.simps)
  with ag have "Sprintf ''count=%d'' [VInt 5] = ''count=5''"
    by (simp add: fmt_agrees_def)
  with ag le show ?thesis
    by (simp add: Infof_def logFormattedEntry_line rendered_line_def LogLevel_String_def
        level_defs)
qed

text \<open>
  Claim C6. The claim says that the format-convention variants substitute their
  arguments into the message. Fatalf is the format variant of the FATAL level, and it
  calls \<^verbatim>\<open>logEntry\<close>, the concatenation path: \<^verbatim>\<open>Fatalf("count=%d", 5)\<close> writes a line whose
  message is \<^verbatim>\<open>count=%!d(MISSING) %!!(MISSING)s(int=5)\<close>, not \<^verbatim>\<open>count=5\<close>, before it
  exits.
\<close>

theorem Fatalf_does_not_substitute:
  "fmt_agrees Sprintf \<Longrightarrow> FATAL \<le> globalLogLevel w \<Longrightarrow>
   Fatalf Sprintf now ''count=%d'' [VInt 5] w
     = (Exits 1,
        w\<lparr>stderr := stderr w
          @ rendered_line now FATAL ''count=%!d(MISSING) %!!(MISSING)s(int=5)''
          @ [CHR 0x0A]\<rparr>)"
proof -
  assume ag: "fmt_agrees Sprintf" and le: "FATAL \<le> globalLogLevel w"
  have "fmt_Sprintf '' %s'' [VInt 5] = Some '' %!s(int=5)''"
    by (simp add: printArg_def verb_char_def strconv_Itoa_def digits.simps)
  with ag have arg: "Sprintf '' %s'' [VInt 5] = '' %!s(int=5)''"
    by (simp add: fmt_agrees_def)
  have "fmt_Sprintf ''count=%d %!s(int=5)'' []
      = Some ''count=%!d(MISSING) %!!(MISSING)s(int=5)''"
    by (simp add: verb_char_def)
  with ag have "Sprintf ''count=%d %!s(int=5)'' []
      = ''count=%!d(MISSING) %!!(MISSING)s(int=5)''"
    by (simp add: fmt_agrees_def)
  with ag le arg show ?thesis
    by (simp add: Fatalf_def logEntry_line)
qed

theorem Fatalf_does_not_substitute_witness:
  "fmt_agrees Sprintf_fragment \<and> FATAL \<le> globalLogLevel initial_world \<and>
   Fatalf Sprintf_fragment ''2014-01-02 03:04:05'' ''count=%d'' [VInt 5] initial_world
     = (Exits 1,
        \<lparr>globalLogLevel = DEBUG,
         stderr = ''2014-01-02 03:04:05 FATAL count=%!d(MISSING) %!!(MISSING)s(int=5)''
           @ [CHR 0x0A]\<rparr>)"
  using Fatalf_does_not_substitute [OF Sprintf_fragment_agrees, of initial_world
      "''2014-01-02 03:04:05''"]
    Sprintf_fragment_agrees
  by (simp add: initial_world_def level_defs rendered_line_def LogLevel_String_def)

end
